theory Spec2Isabelle
  imports Complex_Main "HOL-Library.Sublist"
begin

section \<open>Python values used by the code\<close>

text \<open>
  Strings are lists of characters; the model covers ASCII text, so \<open>str.lower()\<close> and the
  \<open>re.IGNORECASE\<close> flag fold the letters A-Z only. Exceptions are values of \<open>error\<close>, and a
  function that can raise returns \<open>error + 'a\<close> with \<open>Inl\<close> for the exception.
\<close>

datatype error = TypeError | KeyError | ValueError | HttpError | Base64Error | DatabaseError

text \<open>Truthiness of an optional string: \<open>None\<close> and the empty string are falsy.\<close>

definition truthy :: "string option \<Rightarrow> bool" where
  "truthy s = (case s of None \<Rightarrow> False | Some v \<Rightarrow> v \<noteq> [])"

text \<open>\<open>x or ''\<close> for an optional string.\<close>

definition or_empty :: "string option \<Rightarrow> string" where
  "or_empty s = (case s of None \<Rightarrow> [] | Some v \<Rightarrow> v)"

text \<open>\<open>d.get(k, default)\<close> on a dictionary with string values.\<close>

definition get_or :: "(string \<rightharpoonup> string) \<Rightarrow> string \<Rightarrow> string \<Rightarrow> string" where
  "get_or d k dflt = (case d k of None \<Rightarrow> dflt | Some v \<Rightarrow> v)"

definition lower_char :: "char \<Rightarrow> char" where
  "lower_char c =
     (let n = (of_char c :: nat) in if 65 \<le> n \<and> n \<le> 90 then char_of (n + 32) else c)"

definition lower :: "string \<Rightarrow> string" where
  "lower s = map lower_char s"

text \<open>\<open>kw in s\<close> on strings: \<open>kw\<close> occurs as a contiguous substring of \<open>s\<close>.\<close>

fun str_in :: "string \<Rightarrow> string \<Rightarrow> bool" where
  "str_in kw [] = (kw = [])"
| "str_in kw (c # cs) = (prefix kw (c # cs) \<or> str_in kw cs)"


subsection \<open>Regular expressions\<close>

text \<open>
  The fragment of Python's \<open>re\<close> syntax that the patterns of \<open>gmail_service.py\<close> use:
  literal text, \<open>.\<close> (any character but a newline), \<open>\d\<close>, \<open>\s\<close>, \<open>?\<close>, \<open>*\<close>, \<open>+\<close> and
  concatenation. \<open>re.search\<close> asks whether some substring matches, so the order in which a
  backtracking engine tries alternatives does not matter, and matching is decided with
  derivatives.
\<close>

datatype rx =
    Empty
  | Eps
  | Lit string
  | Dot
  | Digit
  | Space
  | Alt rx rx
  | Cat rx rx
  | Star rx

abbreviation Opt :: "rx \<Rightarrow> rx" where
  "Opt r \<equiv> Alt r Eps"

abbreviation Plus :: "rx \<Rightarrow> rx" where
  "Plus r \<equiv> Cat r (Star r)"

definition is_digit :: "char \<Rightarrow> bool" where
  "is_digit c = (let n = (of_char c :: nat) in 48 \<le> n \<and> n \<le> 57)"

definition is_space :: "char \<Rightarrow> bool" where
  "is_space c = (let n = (of_char c :: nat) in n = 32 \<or> (9 \<le> n \<and> n \<le> 13))"

fun nullable :: "rx \<Rightarrow> bool" where
  "nullable Empty = False"
| "nullable Eps = True"
| "nullable (Lit s) = (s = [])"
| "nullable Dot = False"
| "nullable Digit = False"
| "nullable Space = False"
| "nullable (Alt r s) = (nullable r \<or> nullable s)"
| "nullable (Cat r s) = (nullable r \<and> nullable s)"
| "nullable (Star r) = True"

fun deriv :: "char \<Rightarrow> rx \<Rightarrow> rx" where
  "deriv c Empty = Empty"
| "deriv c Eps = Empty"
| "deriv c (Lit []) = Empty"
| "deriv c (Lit (x # xs)) = (if c = x then Lit xs else Empty)"
| "deriv c Dot = (if c = CHR 0x0A then Empty else Eps)"
| "deriv c Digit = (if is_digit c then Eps else Empty)"
| "deriv c Space = (if is_space c then Eps else Empty)"
| "deriv c (Alt r s) = Alt (deriv c r) (deriv c s)"
| "deriv c (Cat r s) =
     (if nullable r then Alt (Cat (deriv c r) s) (deriv c s) else Cat (deriv c r) s)"
| "deriv c (Star r) = Cat (deriv c r) (Star r)"

text \<open>\<open>re.match\<close>: some prefix of the string matches.\<close>

fun re_match :: "rx \<Rightarrow> string \<Rightarrow> bool" where
  "re_match r [] = nullable r"
| "re_match r (c # cs) = (nullable r \<or> re_match (deriv c r) cs)"

text \<open>\<open>re.search\<close>: a match starts at some position of the string.\<close>

fun re_search :: "rx \<Rightarrow> string \<Rightarrow> bool" where
  "re_search r [] = nullable r"
| "re_search r (c # cs) = (re_match r (c # cs) \<or> re_search r cs)"

text \<open>
  \<open>re.search(pattern, s, re.IGNORECASE)\<close> for a pattern whose literals are lower case, which
  all patterns below are.
\<close>

definition re_search_ignorecase :: "rx \<Rightarrow> string \<Rightarrow> bool" where
  "re_search_ignorecase r s = re_search r (lower s)"

section \<open>The mailbox service (\<open>app/services/gmail_service.py\<close>)\<close>

subsection \<open>Listing message ids\<close>





subsection \<open>Extracting the body\<close>

text \<open>
  A part of a message payload, as the provider's JSON has it: every key may be missing.
  \<open>body\<close> is \<open>None\<close> when the part has no \<open>body\<close> key, and \<open>data\<close> is \<open>None\<close> when the body
  has no \<open>data\<close> key.
\<close>

datatype body = Body (data: "string option")

datatype part =
  Part (mimeType: "string option") (headers: "(string \<times> string) list option")
       (body: "body option") (parts: "part list option")

text \<open>
  \<open>extract_from_part\<close>, with the two \<open>nonlocal\<close> variables as the state
  \<open>(text_content, html_content)\<close>. \<open>decode\<close> stands for
  \<open>base64.urlsafe_b64decode(data).decode('utf-8', errors='ignore')\<close>, which raises on
  malformed input.
\<close>

definition extract_from_part ::
  "(string \<Rightarrow> error + string) \<Rightarrow> string option \<times> string option \<Rightarrow> part
     \<Rightarrow> error + string option \<times> string option"
where
  "extract_from_part decode st part =
     (let mime_type = (case mimeType part of None \<Rightarrow> [] | Some m \<Rightarrow> m)
      in case (case body part of None \<Rightarrow> None | Some b \<Rightarrow> data b) of
           None \<Rightarrow> Inr st
         | Some d \<Rightarrow>
             (case decode d of
                Inl e \<Rightarrow> Inl e
              | Inr content \<Rightarrow>
                  if mime_type = ''text/plain'' \<and> \<not> truthy (fst st)
                  then Inr (Some content, snd st)
                  else if mime_type = ''text/html'' \<and> \<not> truthy (snd st)
                  then Inr (fst st, Some content)
                  else Inr st))"

text \<open>The inner loop \<open>for subpart in part['parts']: extract_from_part(subpart)\<close>.\<close>

fun extract_subparts ::
  "(string \<Rightarrow> error + string) \<Rightarrow> string option \<times> string option \<Rightarrow> part list
     \<Rightarrow> error + string option \<times> string option"
where
  "extract_subparts decode st [] = Inr st"
| "extract_subparts decode st (p # ps) =
     (case extract_from_part decode st p of
        Inl e \<Rightarrow> Inl e
      | Inr st' \<Rightarrow> extract_subparts decode st' ps)"

text \<open>The outer loop \<open>for part in payload['parts']\<close>.\<close>

fun extract_parts ::
  "(string \<Rightarrow> error + string) \<Rightarrow> string option \<times> string option \<Rightarrow> part list
     \<Rightarrow> error + string option \<times> string option"
where
  "extract_parts decode st [] = Inr st"
| "extract_parts decode st (p # ps) =
     (case (case parts p of
              Some subparts \<Rightarrow> extract_subparts decode st subparts
            | None \<Rightarrow> extract_from_part decode st p) of
        Inl e \<Rightarrow> Inl e
      | Inr st' \<Rightarrow> extract_parts decode st' ps)"

text \<open>
  The last step of \<open>extract_message_body\<close>: plain text is made from the HTML when there is
  none. \<open>html_to_text\<close> stands for the method of that name, which calls the HTML parser and
  falls back to its argument when the parser raises.
\<close>

definition convert_html ::
  "(string \<Rightarrow> string) \<Rightarrow> string option \<times> string option \<Rightarrow> string option \<times> string option"
where
  "convert_html html_to_text st =
     (case snd st of
        Some html \<Rightarrow>
          if \<not> truthy (fst st) \<and> html \<noteq> [] then (Some (html_to_text html), Some html) else st
      | None \<Rightarrow> st)"

definition extract_message_body ::
  "(string \<Rightarrow> error + string) \<Rightarrow> (string \<Rightarrow> string) \<Rightarrow> part
     \<Rightarrow> error + string option \<times> string option"
where
  "extract_message_body decode html_to_text payload =
     (case (case parts payload of
              Some ps \<Rightarrow> extract_parts decode (None, None) ps
            | None \<Rightarrow> extract_from_part decode (None, None) payload) of
        Inl e \<Rightarrow> Inl e
      | Inr st \<Rightarrow> Inr (convert_html html_to_text st))"

text \<open>
  The parts on which \<open>extract_message_body\<close> calls \<open>extract_from_part\<close>, in the order of
  the calls: the payload itself when it has no \<open>parts\<close> key, and otherwise every top-level
  part without a \<open>parts\<close> key and every direct sub-part of a top-level part that has one.
\<close>

definition visited_parts :: "part \<Rightarrow> part list" where
  "visited_parts payload =
     (case parts payload of
        None \<Rightarrow> [payload]
      | Some ps \<Rightarrow> concat (map (\<lambda>p. case parts p of Some subparts \<Rightarrow> subparts | None \<Rightarrow> [p]) ps))"

text \<open>The decoded content of a part of the given MIME type that carries data.\<close>

definition part_content :: "(string \<Rightarrow> error + string) \<Rightarrow> string \<Rightarrow> part \<Rightarrow> string option" where
  "part_content decode mime p =
     (if mimeType p = Some mime
      then (case body p of
              None \<Rightarrow> None
            | Some b \<Rightarrow>
                (case data b of
                   None \<Rightarrow> None
                 | Some d \<Rightarrow> (case decode d of Inl e \<Rightarrow> None | Inr content \<Rightarrow> Some content)))
      else None)"

fun contents :: "(string \<Rightarrow> error + string) \<Rightarrow> string \<Rightarrow> part list \<Rightarrow> string list" where
  "contents decode mime [] = []"
| "contents decode mime (p # ps) =
     (case part_content decode mime p of
        None \<Rightarrow> contents decode mime ps
      | Some c \<Rightarrow> c # contents decode mime ps)"

text \<open>
  The selection among the contents of one MIME type: the first content that is not empty;
  when all are empty, the empty string; when there is none, \<open>None\<close>. \<open>keep_or\<close> is the same
  selection started from a value that is already there.
\<close>

definition first_wins :: "string list \<Rightarrow> string option" where
  "first_wins cs =
     (case find (\<lambda>c. c \<noteq> []) cs of
        Some c \<Rightarrow> Some c
      | None \<Rightarrow> if cs = [] then None else Some [])"

definition keep_or :: "string option \<Rightarrow> string list \<Rightarrow> string option" where
  "keep_or cur cs =
     (if truthy cur then cur else (case first_wins cs of None \<Rightarrow> cur | Some c \<Rightarrow> Some c))"

subsection \<open>Classifying a message\<close>

definition unsubscribe_patterns :: "rx list" where
  "unsubscribe_patterns =
     [Lit ''unsubscribe'',
      Cat (Lit ''opt'') (Cat (Opt Dot) (Lit ''out'')),
      Cat (Lit ''remove'') (Cat (Opt Dot) (Lit ''me'')),
      Cat (Lit ''manage'') (Cat (Opt Dot) (Lit ''preferences'')),
      Cat (Lit ''email'') (Cat (Opt Dot) (Lit ''preferences''))]"

definition list_headers :: "string list" where
  "list_headers = [''List-ID'', ''List-Post'', ''List-Help'', ''Mailing-List'']"

definition newsletter_sender_patterns :: "rx list" where
  "newsletter_sender_patterns =
     [Lit ''newsletter'',
      Lit ''noreply'',
      Lit ''no-reply'',
      Lit ''digest'',
      Cat (Lit ''update'') (Opt (Lit ''s'')),
      Cat (Lit ''notification'') (Opt (Lit ''s'')),
      Cat (Lit ''alert'') (Opt (Lit ''s''))]"

definition newsletter_subject_patterns :: "rx list" where
  "newsletter_subject_patterns =
     [Lit ''newsletter'',
      Lit ''digest'',
      Cat (Lit ''weekly'') (Cat (Star Dot) (Lit ''update'')),
      Cat (Lit ''daily'') (Cat (Star Dot) (Lit ''update'')),
      Cat (Lit ''monthly'') (Cat (Star Dot) (Lit ''update'')),
      Cat (Lit ''issue'') (Cat (Star Dot) (Plus Digit)),
      Cat (Lit ''edition'') (Cat (Star Dot) (Plus Digit)),
      Cat (Lit ''vol'') (Cat (Opt (Lit ''.'')) (Cat (Star Space) (Plus Digit)))]"

text \<open>
  The loop over the unsubscribe patterns: the first pattern found adds 2 and leaves the
  loop (\<open>break\<close>).
\<close>

fun unsubscribe_loop :: "rx list \<Rightarrow> string \<Rightarrow> int \<Rightarrow> int" where
  "unsubscribe_loop [] content indicators = indicators"
| "unsubscribe_loop (pattern # ps) content indicators =
     (if re_search_ignorecase pattern content then indicators + 2
      else unsubscribe_loop ps content indicators)"

text \<open>The loop over the mailing-list headers: \<open>if headers.get(header): indicators += 1\<close>.\<close>

fun list_header_loop :: "string list \<Rightarrow> (string \<rightharpoonup> string) \<Rightarrow> int \<Rightarrow> int" where
  "list_header_loop [] hdrs indicators = indicators"
| "list_header_loop (header # hs) hdrs indicators =
     list_header_loop hs hdrs (if truthy (hdrs header) then indicators + 1 else indicators)"

text \<open>The loops over the sender and subject patterns: every pattern found adds 1.\<close>

fun pattern_loop :: "rx list \<Rightarrow> string \<Rightarrow> int \<Rightarrow> int" where
  "pattern_loop [] s indicators = indicators"
| "pattern_loop (pattern # ps) s indicators =
     pattern_loop ps s (if re_search pattern s then indicators + 1 else indicators)"

definition indicators_of :: "(string \<rightharpoonup> string) \<Rightarrow> string option \<Rightarrow> string option \<Rightarrow> int" where
  "indicators_of hdrs text_content html_content =
     (let indicators = 0;
          indicators =
            (if truthy text_content \<or> truthy html_content
             then unsubscribe_loop unsubscribe_patterns
                    (or_empty text_content @ or_empty html_content) indicators
             else indicators);
          list_unsubscribe = get_or hdrs ''List-Unsubscribe'' [];
          indicators = (if list_unsubscribe \<noteq> [] then indicators + 3 else indicators);
          indicators = list_header_loop list_headers hdrs indicators;
          sender = lower (get_or hdrs ''From'' []);
          indicators = pattern_loop newsletter_sender_patterns sender indicators;
          subject = lower (get_or hdrs ''Subject'' []);
          indicators = pattern_loop newsletter_subject_patterns subject indicators
      in indicators)"

definition is_likely_newsletter :: "(string \<rightharpoonup> string) \<Rightarrow> string option \<Rightarrow> string option \<Rightarrow> bool" where
  "is_likely_newsletter hdrs text_content html_content =
     (3 \<le> indicators_of hdrs text_content html_content)"






subsection \<open>Parsing a message\<close>

text \<open>The dictionary that \<open>parse_message\<close> returns; times are seconds.\<close>

record email_data =
  ed_id :: string
  ed_thread_id :: string
  ed_labels :: "string list"
  ed_snippet :: string
  ed_received_at :: int
  ed_sender_email :: string
  ed_sender_name :: "string option"
  ed_subject :: string
  ed_content_text :: "string option"
  ed_content_html :: "string option"
  ed_content_length :: nat
  ed_message_id_header :: string
  ed_size_estimate :: int
  ed_is_newsletter :: bool

text \<open>The provider's message: \<open>id\<close>, \<open>threadId\<close> and \<open>payload\<close> are read with \<open>[]\<close>, the rest with \<open>get\<close>.\<close>

record message =
  m_id :: string
  m_threadId :: string
  m_labelIds :: "string list option"
  m_snippet :: "string option"
  m_sizeEstimate :: "int option"
  m_payload :: part

text \<open>
  \<open>parse_message\<close>. \<open>parse_email_date\<close> and \<open>parse_sender\<close> stand for the methods of these
  names, which wrap \<open>email.utils\<close> and catch its exceptions. The header dictionary is built
  by a comprehension, so a later header of the same name replaces an earlier one.
\<close>

definition parse_message ::
  "(string \<Rightarrow> int) \<Rightarrow> (string \<Rightarrow> string \<times> string option) \<Rightarrow> (string \<Rightarrow> error + string)
     \<Rightarrow> (string \<Rightarrow> string) \<Rightarrow> message \<Rightarrow> error + email_data"
where
  "parse_message parse_email_date parse_sender decode html_to_text message =
     (let hs = (case headers (m_payload message) of None \<Rightarrow> [] | Some l \<Rightarrow> l);
          header_dict = map_of (rev hs)
      in case extract_message_body decode html_to_text (m_payload message) of
           Inl e \<Rightarrow> Inl e
         | Inr (text_content, html_content) \<Rightarrow>
             (let date_str = get_or header_dict ''Date'' [];
                  received_at = parse_email_date date_str;
                  sender = parse_sender (get_or header_dict ''From'' [])
              in Inr \<lparr>ed_id = m_id message,
                      ed_thread_id = m_threadId message,
                      ed_labels = (case m_labelIds message of None \<Rightarrow> [] | Some l \<Rightarrow> l),
                      ed_snippet = or_empty (m_snippet message),
                      ed_received_at = received_at,
                      ed_sender_email = fst sender,
                      ed_sender_name = snd sender,
                      ed_subject = get_or header_dict ''Subject'' [],
                      ed_content_text = text_content,
                      ed_content_html = html_content,
                      ed_content_length =
                        (if truthy text_content then length (or_empty text_content) else 0),
                      ed_message_id_header = get_or header_dict ''Message-ID'' [],
                      ed_size_estimate = (case m_sizeEstimate message of None \<Rightarrow> 0 | Some n \<Rightarrow> n),
                      ed_is_newsletter =
                        is_likely_newsletter header_dict text_content html_content\<rparr>))"

subsection \<open>Newsletter metadata\<close>

definition estimate_publication_frequency :: "email_data \<Rightarrow> string" where
  "estimate_publication_frequency email =
     (let subject = lower (ed_subject email)
      in if list_ex (\<lambda>word. str_in word subject) [''daily'', ''today''] then ''daily''
         else if list_ex (\<lambda>word. str_in word subject) [''weekly'', ''week''] then ''weekly''
         else if list_ex (\<lambda>word. str_in word subject) [''monthly'', ''month''] then ''monthly''
         else if list_ex (\<lambda>word. str_in word subject) [''quarterly'', ''quarter''] then ''quarterly''
         else ''unknown'')"

text \<open>The \<open>categories\<close> dictionary of \<open>categorize_newsletter\<close>, in the order it is written.\<close>

definition categories :: "(string \<times> string list) list" where
  "categories =
     [(''Technology'', [''tech'', ''software'', ''ai'', ''machine learning'', ''programming'',
                        ''coding'', ''developer'']),
      (''Business'', [''business'', ''startup'', ''entrepreneur'', ''marketing'', ''sales'',
                      ''strategy'']),
      (''Finance'', [''finance'', ''investment'', ''crypto'', ''stock'', ''trading'', ''money'',
                     ''economy'']),
      (''News'', [''news'', ''politics'', ''world'', ''breaking'', ''update'', ''current events'']),
      (''Health'', [''health'', ''wellness'', ''fitness'', ''medical'', ''nutrition'', ''exercise'']),
      (''Science'', [''science'', ''research'', ''study'', ''discovery'', ''experiment'',
                     ''academic'']),
      (''Education'', [''education'', ''learning'', ''course'', ''training'', ''skill'',
                       ''knowledge'']),
      (''Lifestyle'', [''lifestyle'', ''travel'', ''food'', ''culture'', ''entertainment'',
                       ''fashion''])]"

text \<open>\<open>sum(1 for keyword in keywords if keyword in content)\<close>.\<close>

definition keyword_score :: "string \<Rightarrow> string list \<Rightarrow> nat" where
  "keyword_score content keywords = length (filter (\<lambda>keyword. str_in keyword content) keywords)"

text \<open>
  The loop that fills \<open>scores\<close>. The dictionary keeps insertion order and the category names
  are distinct, so it is the list of the entries in the order they were added.
\<close>

fun score_loop :: "(string \<times> string list) list \<Rightarrow> string \<Rightarrow> (string \<times> nat) list" where
  "score_loop [] content = []"
| "score_loop ((category, keywords) # cs) content =
     (let score = keyword_score content keywords
      in if 0 < score then (category, score) # score_loop cs content
         else score_loop cs content)"

text \<open>
  \<open>max(scores, key=scores.get)\<close>: Python's \<open>max\<close> walks the keys in order and replaces its
  candidate only by a key whose value is strictly greater.
\<close>

fun max_by_score :: "string \<times> nat \<Rightarrow> (string \<times> nat) list \<Rightarrow> string \<times> nat" where
  "max_by_score best [] = best"
| "max_by_score best (x # xs) = max_by_score (if snd best < snd x then x else best) xs"

text \<open>
  \<open>categorize_newsletter\<close>; \<open>pick_category\<close> is its part after the content is built: the
  scores, and \<open>General\<close> when the dictionary of scores is empty. \<open>+\<close> binds tighter than
  \<open>or\<close>, so the content is
  \<open>(subject + ' ' + content_text) or ''\<close>: with \<open>content_text\<close> \<open>None\<close> the concatenation
  raises \<open>TypeError\<close> before \<open>or\<close> is reached.
\<close>

definition pick_category :: "(string \<times> string list) list \<Rightarrow> string \<Rightarrow> string" where
  "pick_category cs content =
     (case score_loop cs content of
        [] \<Rightarrow> ''General''
      | s # ss \<Rightarrow> fst (max_by_score s ss))"

definition categorize_newsletter :: "email_data \<Rightarrow> error + string" where
  "categorize_newsletter email =
     (case ed_content_text email of
        None \<Rightarrow> Inl TypeError
      | Some content_text \<Rightarrow>
          (let content = lower (ed_subject email @ '' '' @ content_text)
           in Inr (pick_category categories content)))"

text \<open>The dictionary that \<open>extract_newsletter_metadata\<close> returns and the CRUD layer reads.\<close>

record newsletter_data =
  nd_sender_email :: string
  nd_sender_name :: "string option"
  nd_newsletter_title :: "string option"
  nd_domain :: "string option"
  nd_category :: "string option"
  nd_publication_frequency :: "string option"
  nd_average_length :: "nat option"

text \<open>\<open>sender_email.split('@')[-1]\<close>: what follows the last \<open>@\<close>.\<close>

definition after_last_at :: "string \<Rightarrow> string" where
  "after_last_at s = rev (takeWhile (\<lambda>c. c \<noteq> CHR ''@'') (rev s))"

text \<open>
  \<open>extract_newsletter_metadata\<close>. \<open>netloc\<close> stands for \<open>urlparse("http://" + host).netloc\<close>,
  which may raise, and \<open>guess_newsletter_title\<close> for the method of that name, which returns
  for every parsed message. The title and the frequency are computed before the category.
\<close>

definition extract_newsletter_metadata ::
  "(string \<Rightarrow> error + string) \<Rightarrow> (email_data \<Rightarrow> string option) \<Rightarrow> email_data
     \<Rightarrow> error + newsletter_data"
where
  "extract_newsletter_metadata netloc guess_newsletter_title email =
     (let sender_email = ed_sender_email email
      in case (if CHR ''@'' \<in> set sender_email then netloc (after_last_at sender_email)
               else Inr []) of
           Inl e \<Rightarrow> Inl e
         | Inr domain \<Rightarrow>
             (let title = guess_newsletter_title email;
                  frequency = estimate_publication_frequency email
              in case categorize_newsletter email of
                   Inl e \<Rightarrow> Inl e
                 | Inr category \<Rightarrow>
                     Inr \<lparr>nd_sender_email = sender_email,
                          nd_sender_name = ed_sender_name email,
                          nd_newsletter_title = title,
                          nd_domain = Some domain,
                          nd_category = Some category,
                          nd_publication_frequency = Some frequency,
                          nd_average_length = Some (ed_content_length email)\<rparr>))"

section \<open>The persistence layer (\<open>app/crud/newsletter.py\<close>)\<close>

text \<open>
  A table is the list of its rows in insertion order, which is the order of the primary
  keys; \<open>.first()\<close> of a filtered query is the first row of the table that passes the filter.
  The rows carry the columns that the functions below read or write; the timestamps that
  the database server maintains by itself are left out. Times are seconds, and every
  function that calls \<open>datetime.now()\<close> takes \<open>now\<close> as an argument.
\<close>

record newsletter =
  nl_id :: nat
  nl_sender_email :: string
  nl_sender_name :: "string option"
  nl_newsletter_title :: "string option"
  nl_domain :: "string option"
  nl_category :: "string option"
  nl_publication_frequency :: "string option"
  nl_average_length :: "nat option"
  nl_last_received_at :: "int option"
  nl_total_emails_count :: int
  nl_is_active :: bool

record user_newsletter =
  un_id :: nat
  un_user_id :: nat
  un_newsletter_id :: nat
  un_base_relevance_score :: real
  un_current_relevance_score :: real
  un_is_active :: bool
  un_is_subscribed :: bool

record newsletter_email =
  ne_id :: nat
  ne_user_id :: nat
  ne_newsletter_id :: nat
  ne_email_id :: string
  ne_message_id_header :: "string option"
  ne_thread_id :: "string option"
  ne_subject :: string
  ne_sender :: string
  ne_received_at :: int
  ne_content_text :: "string option"
  ne_content_html :: "string option"
  ne_content_length :: "nat option"
  ne_labels :: "string option"
  ne_snippet :: "string option"

record email_connection =
  ec_id :: nat
  ec_user_id :: nat
  ec_email_address :: string
  ec_access_token :: "string option"
  ec_refresh_token :: "string option"
  ec_is_connected :: bool
  ec_connection_status :: string
  ec_last_sync_at :: "int option"
  ec_last_error :: "string option"
  ec_connected_at :: "int option"

record db =
  newsletters :: "newsletter list"
  user_newsletters :: "user_newsletter list"
  newsletter_emails :: "newsletter_email list"
  email_connections :: "email_connection list"

text \<open>The next value of an auto-incremented primary key.\<close>

definition next_id :: "nat list \<Rightarrow> nat" where
  "next_id ids = Suc (fold max ids 0)"

text \<open>
  Writing a changed row back on \<open>commit\<close>: the row that \<open>.first()\<close> returned is the first
  one that passes the filter.
\<close>

fun update_first :: "('a \<Rightarrow> bool) \<Rightarrow> 'a \<Rightarrow> 'a list \<Rightarrow> 'a list" where
  "update_first P y [] = []"
| "update_first P y (x # xs) = (if P x then y # xs else x # update_first P y xs)"

text \<open>\<open>sep.join(xs)\<close>.\<close>

fun join_str :: "string \<Rightarrow> string list \<Rightarrow> string" where
  "join_str sep [] = []"
| "join_str sep [x] = x"
| "join_str sep (x # y # ys) = x @ sep @ join_str sep (y # ys)"

subsection \<open>Newsletters\<close>

definition get_or_create_newsletter :: "db \<Rightarrow> int \<Rightarrow> newsletter_data \<Rightarrow> db \<times> newsletter" where
  "get_or_create_newsletter d now newsletter_data =
     (let same_sender = (\<lambda>n. nl_sender_email n = nd_sender_email newsletter_data)
      in case find same_sender (newsletters d) of
           Some newsletter \<Rightarrow>
             (let n1 = newsletter\<lparr>nl_last_received_at := Some now\<rparr>;
                  n2 = n1\<lparr>nl_total_emails_count := nl_total_emails_count n1 + 1\<rparr>;
                  n3 = (if truthy (nd_newsletter_title newsletter_data)
                           \<and> \<not> truthy (nl_newsletter_title n2)
                        then n2\<lparr>nl_newsletter_title := nd_newsletter_title newsletter_data\<rparr>
                        else n2);
                  n4 = (if truthy (nd_category newsletter_data) \<and> \<not> truthy (nl_category n3)
                        then n3\<lparr>nl_category := nd_category newsletter_data\<rparr>
                        else n3)
              in (d\<lparr>newsletters := update_first same_sender n4 (newsletters d)\<rparr>, n4))
         | None \<Rightarrow>
             (let newsletter =
                    \<lparr>nl_id = next_id (map nl_id (newsletters d)),
                     nl_sender_email = nd_sender_email newsletter_data,
                     nl_sender_name = nd_sender_name newsletter_data,
                     nl_newsletter_title = nd_newsletter_title newsletter_data,
                     nl_domain = nd_domain newsletter_data,
                     nl_category = nd_category newsletter_data,
                     nl_publication_frequency = nd_publication_frequency newsletter_data,
                     nl_average_length =
                       Some (case nd_average_length newsletter_data of None \<Rightarrow> 0 | Some n \<Rightarrow> n),
                     nl_last_received_at = Some now,
                     nl_total_emails_count = 1,
                     nl_is_active = True\<rparr>
              in (d\<lparr>newsletters := newsletters d @ [newsletter]\<rparr>, newsletter)))"

subsection \<open>Subscriptions\<close>

definition create_user_newsletter_subscription ::
  "db \<Rightarrow> nat \<Rightarrow> nat \<Rightarrow> real \<Rightarrow> db \<times> user_newsletter"
where
  "create_user_newsletter_subscription d user_id newsletter_id base_relevance_score =
     (let same_pair = (\<lambda>s. un_user_id s = user_id \<and> un_newsletter_id s = newsletter_id)
      in case find same_pair (user_newsletters d) of
           Some existing \<Rightarrow>
             (let e1 = existing\<lparr>un_is_active := True\<rparr>;
                  e2 = e1\<lparr>un_is_subscribed := True\<rparr>
              in (d\<lparr>user_newsletters := update_first same_pair e2 (user_newsletters d)\<rparr>, e2))
         | None \<Rightarrow>
             (let subscription =
                    \<lparr>un_id = next_id (map un_id (user_newsletters d)),
                     un_user_id = user_id,
                     un_newsletter_id = newsletter_id,
                     un_base_relevance_score = base_relevance_score,
                     un_current_relevance_score = base_relevance_score,
                     un_is_active = True,
                     un_is_subscribed = True\<rparr>
              in (d\<lparr>user_newsletters := user_newsletters d @ [subscription]\<rparr>, subscription)))"

subsection \<open>Emails\<close>

definition create_newsletter_email ::
  "db \<Rightarrow> nat \<Rightarrow> nat \<Rightarrow> email_data \<Rightarrow> db \<times> newsletter_email"
where
  "create_newsletter_email d user_id newsletter_id email =
     (case find (\<lambda>e. ne_user_id e = user_id \<and> ne_email_id e = ed_id email)
             (newsletter_emails d) of
        Some existing \<Rightarrow> (d, existing)
      | None \<Rightarrow>
          (let newsletter_email =
                 \<lparr>ne_id = next_id (map ne_id (newsletter_emails d)),
                  ne_user_id = user_id,
                  ne_newsletter_id = newsletter_id,
                  ne_email_id = ed_id email,
                  ne_message_id_header = Some (ed_message_id_header email),
                  ne_thread_id = Some (ed_thread_id email),
                  ne_subject = ed_subject email,
                  ne_sender = ed_sender_email email,
                  ne_received_at = ed_received_at email,
                  ne_content_text = ed_content_text email,
                  ne_content_html = ed_content_html email,
                  ne_content_length = Some (ed_content_length email),
                  ne_labels = Some (join_str '','' (ed_labels email)),
                  ne_snippet = Some (ed_snippet email)\<rparr>
           in (d\<lparr>newsletter_emails := newsletter_emails d @ [newsletter_email]\<rparr>,
               newsletter_email)))"

subsection \<open>Connections\<close>

definition get_email_connection :: "db \<Rightarrow> nat \<Rightarrow> email_connection option" where
  "get_email_connection d user_id = find (\<lambda>c. ec_user_id c = user_id) (email_connections d)"

definition update_email_connection_status ::
  "db \<Rightarrow> int \<Rightarrow> nat \<Rightarrow> string \<Rightarrow> string option \<Rightarrow> db \<times> email_connection option"
where
  "update_email_connection_status d now user_id status error_message =
     (case get_email_connection d user_id of
        Some connection \<Rightarrow>
          (let c1 = connection\<lparr>ec_connection_status := status\<rparr>;
               c2 = c1\<lparr>ec_is_connected := (status = ''connected'')\<rparr>;
               c3 = c2\<lparr>ec_last_error := error_message\<rparr>;
               c4 = (if status = ''connected'' then c3\<lparr>ec_last_sync_at := Some now\<rparr> else c3)
           in (d\<lparr>email_connections :=
                    update_first (\<lambda>c. ec_user_id c = user_id) c4 (email_connections d)\<rparr>,
               Some c4))
      | None \<Rightarrow> (d, None))"

subsection \<open>Statistics\<close>

record engagement_stats =
  average_relevance_score :: real
  open_rate :: real
  click_rate :: real

record stats =
  total_newsletters :: nat
  active_subscriptions :: nat
  total_emails :: nat
  emails_this_week :: nat
  emails_this_month :: nat
  top_categories :: "(string \<times> nat) list"
  engagement :: engagement_stats

text \<open>
  The six queries of \<open>get_newsletter_stats\<close>, evaluated on the tables. A join pairs the rows
  that the foreign key \<open>newsletter_id\<close> relates.
\<close>

definition count_total_newsletters :: "db \<Rightarrow> nat \<Rightarrow> nat" where
  "count_total_newsletters d user_id =
     length (concat (map (\<lambda>n. filter (\<lambda>s. un_newsletter_id s = nl_id n \<and> un_user_id s = user_id)
                                 (user_newsletters d))
                         (newsletters d)))"

definition count_active_subscriptions :: "db \<Rightarrow> nat \<Rightarrow> nat" where
  "count_active_subscriptions d user_id =
     length (filter (\<lambda>s. un_user_id s = user_id \<and> un_is_active s) (user_newsletters d))"

definition count_total_emails :: "db \<Rightarrow> nat \<Rightarrow> nat" where
  "count_total_emails d user_id =
     length (filter (\<lambda>e. ne_user_id e = user_id) (newsletter_emails d))"

definition count_emails_since :: "db \<Rightarrow> nat \<Rightarrow> int \<Rightarrow> nat" where
  "count_emails_since d user_id since =
     length (filter (\<lambda>e. ne_user_id e = user_id \<and> since \<le> ne_received_at e)
               (newsletter_emails d))"

text \<open>
  The grouped query: the categories of the newsletters joined with the user's emails, each
  with the number of joined rows, most frequent first, at most five. The order among equal
  counts is the database's; here it is the order of first appearance.
\<close>

definition joined_categories :: "db \<Rightarrow> nat \<Rightarrow> string option list" where
  "joined_categories d user_id =
     concat (map (\<lambda>n. map (\<lambda>e. nl_category n)
                         (filter (\<lambda>e. ne_newsletter_id e = nl_id n \<and> ne_user_id e = user_id)
                            (newsletter_emails d)))
                 (newsletters d))"

definition top_categories_query :: "db \<Rightarrow> nat \<Rightarrow> (string option \<times> nat) list" where
  "top_categories_query d user_id =
     (let cats = joined_categories d user_id
      in take 5 (sort_key (\<lambda>(cat, n). - int n)
                   (map (\<lambda>cat. (cat, count_list cats cat)) (rev (remdups (rev cats))))))"

text \<open>
  A query raises when the database fails. \<open>faults k\<close> tells whether the \<open>k\<close>-th query of the
  function raises, and with which exception.
\<close>

definition run_query :: "(nat \<Rightarrow> error option) \<Rightarrow> nat \<Rightarrow> 'a \<Rightarrow> error + 'a" where
  "run_query faults k result = (case faults k of Some e \<Rightarrow> Inl e | None \<Rightarrow> Inr result)"

definition then_do :: "error + 'a \<Rightarrow> ('a \<Rightarrow> error + 'b) \<Rightarrow> error + 'b" where
  "then_do r f = (case r of Inl e \<Rightarrow> Inl e | Inr v \<Rightarrow> f v)"

definition empty_stats :: stats where
  "empty_stats =
     \<lparr>total_newsletters = 0, active_subscriptions = 0, total_emails = 0,
      emails_this_week = 0, emails_this_month = 0, top_categories = [],
      engagement = \<lparr>average_relevance_score = 0, open_rate = 0, click_rate = 0\<rparr>\<rparr>"

text \<open>The body of the \<open>try\<close> block of \<open>get_newsletter_stats\<close>.\<close>

definition compute_stats :: "(nat \<Rightarrow> error option) \<Rightarrow> db \<Rightarrow> int \<Rightarrow> nat \<Rightarrow> error + stats" where
  "compute_stats faults d now user_id =
     then_do (run_query faults 0 (count_total_newsletters d user_id)) (\<lambda>total_nl.
     then_do (run_query faults 1 (count_active_subscriptions d user_id)) (\<lambda>active.
     then_do (run_query faults 2 (count_total_emails d user_id)) (\<lambda>total.
     then_do (run_query faults 3 (count_emails_since d user_id (now - 7 * 86400))) (\<lambda>week.
     then_do (run_query faults 4 (count_emails_since d user_id (now - 30 * 86400))) (\<lambda>month.
     then_do (run_query faults 5 (top_categories_query d user_id)) (\<lambda>rows.
       Inr \<lparr>total_newsletters = total_nl,
            active_subscriptions = active,
            total_emails = total,
            emails_this_week = week,
            emails_this_month = month,
            top_categories =
              (if rows \<noteq> []
               then map (\<lambda>(cat, n). (if truthy cat then or_empty cat else ''Unknown'', n)) rows
               else []),
            engagement =
              \<lparr>average_relevance_score = 0, open_rate = 0, click_rate = 0\<rparr>\<rparr>))))))"

text \<open>\<open>get_newsletter_stats\<close>: any exception of the \<open>try\<close> block is caught.\<close>

definition get_newsletter_stats :: "(nat \<Rightarrow> error option) \<Rightarrow> db \<Rightarrow> int \<Rightarrow> nat \<Rightarrow> stats" where
  "get_newsletter_stats faults d now user_id =
     (case compute_stats faults d now user_id of
        Inr s \<Rightarrow> s
      | Inl e \<Rightarrow> empty_stats)"

section \<open>The sync run (\<open>app/api/endpoints/email.py\<close>)\<close>

text \<open>
  What \<open>GmailService.sync_emails\<close> hands to the run: an error message, or the detected
  newsletters, each with its parsed message and its metadata.
\<close>

datatype sync_result =
    Sync_error "string option"
  | Sync_success "(email_data \<times> newsletter_data) list"

text \<open>
  The loop \<open>for newsletter_data in sync_result['newsletters']\<close> of \<open>sync_user_emails\<close>, with
  the database and the counter \<open>new_newsletters\<close> as its state; \<open>process_one\<close> is its body.
\<close>

definition process_one ::
  "db \<Rightarrow> int \<Rightarrow> nat \<Rightarrow> nat \<Rightarrow> email_data \<times> newsletter_data \<Rightarrow> db \<times> nat"
where
  "process_one d now user_id new_newsletters newsletter_data =
     (let email = fst newsletter_data;
          metadata = snd newsletter_data;
          (d1, newsletter) = get_or_create_newsletter d now metadata;
          existing_subscription =
            find (\<lambda>s. un_user_id s = user_id \<and> un_newsletter_id s = nl_id newsletter)
              (user_newsletters d1);
          (d2, new_newsletters') =
            (case existing_subscription of
               None \<Rightarrow>
                 (fst (create_user_newsletter_subscription d1 user_id (nl_id newsletter) 50),
                  new_newsletters + 1)
             | Some s \<Rightarrow> (d1, new_newsletters));
          d3 = fst (create_newsletter_email d2 user_id (nl_id newsletter) email)
      in (d3, new_newsletters'))"

fun process_newsletters ::
  "db \<Rightarrow> int \<Rightarrow> nat \<Rightarrow> nat \<Rightarrow> (email_data \<times> newsletter_data) list \<Rightarrow> db \<times> nat"
where
  "process_newsletters d now user_id new_newsletters [] = (d, new_newsletters)"
| "process_newsletters d now user_id new_newsletters (newsletter_data # rest) =
     (let (d', new_newsletters') = process_one d now user_id new_newsletters newsletter_data
      in process_newsletters d' now user_id new_newsletters' rest)"

text \<open>
  \<open>sync_user_emails\<close>: \<open>authenticated\<close> is the answer of \<open>authenticate_with_tokens\<close> and
  \<open>sync_result\<close> that of \<open>sync_emails\<close>.
\<close>

definition sync_user_emails :: "db \<Rightarrow> int \<Rightarrow> nat \<Rightarrow> bool \<Rightarrow> sync_result \<Rightarrow> db" where
  "sync_user_emails d now user_id authenticated sync_result =
     (let d1 = fst (update_email_connection_status d now user_id ''syncing'' None)
      in if \<not> authenticated
         then fst (update_email_connection_status d1 now user_id ''error''
                     (Some ''Authentication failed''))
         else (case sync_result of
                 Sync_error msg \<Rightarrow>
                   fst (update_email_connection_status d1 now user_id ''error'' msg)
               | Sync_success found \<Rightarrow>
                   (let d2 = fst (process_newsletters d1 now user_id 0 found)
                    in fst (update_email_connection_status d2 now user_id ''connected'' None))))"

section \<open>Example data\<close>

text \<open>A database with one newsletter, read by user 1, and the database with no rows.\<close>

definition brew :: newsletter where
  "brew =
     \<lparr>nl_id = 1, nl_sender_email = ''crew@morningbrew.com'', nl_sender_name = Some ''Morning Brew'',
      nl_newsletter_title = Some ''Morning Brew'', nl_domain = Some ''morningbrew.com'',
      nl_category = Some ''Business'', nl_publication_frequency = Some ''daily'',
      nl_average_length = Some 1200, nl_last_received_at = Some 900,
      nl_total_emails_count = 4, nl_is_active = True\<rparr>"

definition gmail_link :: email_connection where
  "gmail_link =
     \<lparr>ec_id = 1, ec_user_id = 1, ec_email_address = ''reader@example.com'',
      ec_access_token = Some ''token'', ec_refresh_token = None, ec_is_connected = True,
      ec_connection_status = ''connected'', ec_last_sync_at = Some 900, ec_last_error = None,
      ec_connected_at = Some 100\<rparr>"

definition small_db :: db where
  "small_db =
     \<lparr>newsletters = [brew],
      user_newsletters =
        [\<lparr>un_id = 1, un_user_id = 1, un_newsletter_id = 1, un_base_relevance_score = 50,
          un_current_relevance_score = 50, un_is_active = True, un_is_subscribed = True\<rparr>],
      newsletter_emails = [],
      email_connections = [gmail_link]\<rparr>"

definition no_rows :: db where
  "no_rows = \<lparr>newsletters = [], user_newsletters = [], newsletter_emails = [],
              email_connections = []\<rparr>"

text \<open>Metadata of a later message of the same sender, with another title and category.\<close>

definition later_metadata :: newsletter_data where
  "later_metadata =
     \<lparr>nd_sender_email = ''crew@morningbrew.com'', nd_sender_name = Some ''The Crew'',
      nd_newsletter_title = Some ''Sunday Edition'', nd_domain = Some ''morningbrew.com'',
      nd_category = Some ''Finance'', nd_publication_frequency = Some ''weekly'',
      nd_average_length = Some 10\<rparr>"

text \<open>
  A message whose only part is an attachment without inline data, sent with a
  \<open>List-Unsubscribe\<close> header.
\<close>

definition bodyless_message :: message where
  "bodyless_message =
     \<lparr>m_id = ''m1'', m_threadId = ''t1'', m_labelIds = None, m_snippet = None,
      m_sizeEstimate = None,
      m_payload =
        Part (Some ''multipart/mixed'')
          (Some [(''From'', ''news@example.com''),
                 (''List-Unsubscribe'', ''<mailto:leave@example.com>'')])
          None
          (Some [Part (Some ''image/png'') None (Some (Body None)) None])\<rparr>"

text \<open>
  Payloads: a text part three levels below the payload; two plain-text parts of which the
  first is empty; a nested alternative followed by a second plain-text part; a single
  HTML part. The data are given decoded, so the decoder of the examples is \<open>Inr\<close>.
\<close>

definition text_part :: "string \<Rightarrow> string \<Rightarrow> part" where
  "text_part mime content = Part (Some mime) None (Some (Body (Some content))) None"

definition multipart :: "string \<Rightarrow> part list \<Rightarrow> part" where
  "multipart mime ps = Part (Some mime) None (Some (Body None)) (Some ps)"

definition deep_payload :: part where
  "deep_payload =
     multipart ''multipart/mixed''
       [multipart ''multipart/related''
          [multipart ''multipart/alternative'' [text_part ''text/plain'' ''hello'']]]"

definition empty_first_payload :: part where
  "empty_first_payload =
     multipart ''multipart/mixed''
       [text_part ''text/plain'' [], text_part ''text/plain'' ''second'']"

definition mixed_payload :: part where
  "mixed_payload =
     multipart ''multipart/mixed''
       [multipart ''multipart/alternative''
          [text_part ''text/plain'' ''first'', text_part ''text/html'' ''<p>first</p>''],
        text_part ''text/plain'' ''second'',
        text_part ''text/html'' ''<p>second</p>'']"

definition html_only_payload :: part where
  "html_only_payload = text_part ''text/html'' ''<p>hi</p>''"









section \<open>Properties of the persistence layer\<close>

lemma find_update_first:
  "find P xs = Some x \<Longrightarrow> P y \<Longrightarrow> find P (update_first P y xs) = Some y"
  by (induction xs) (auto split: if_splits)

lemma length_update_first: "length (update_first P y xs) = length xs"
  by (induction xs) auto

text \<open>
  C10. A status update of a user who has a connection stores the new status, makes
  \<open>is_connected\<close> true exactly when the stored status is \<open>connected\<close>, and writes
  \<open>last_sync_at\<close> only when the new status is \<open>connected\<close>: for \<open>syncing\<close>, \<open>error\<close> and every
  other status \<open>last_sync_at\<close> keeps its value. A user without a connection changes nothing.
\<close>

theorem update_email_connection_status_effect:
  "(get_email_connection d user_id = None \<longrightarrow>
      update_email_connection_status d now user_id status error_message = (d, None))
   \<and> (\<forall>c. get_email_connection d user_id = Some c \<longrightarrow>
        (\<exists>c'. snd (update_email_connection_status d now user_id status error_message) = Some c'
           \<and> get_email_connection
                (fst (update_email_connection_status d now user_id status error_message)) user_id
              = Some c'
           \<and> ec_connection_status c' = status
           \<and> (ec_is_connected c' \<longleftrightarrow> ec_connection_status c' = ''connected'')
           \<and> (status \<noteq> ''connected'' \<longrightarrow> ec_last_sync_at c' = ec_last_sync_at c)
           \<and> (status = ''connected'' \<longrightarrow> ec_last_sync_at c' = Some now)))"
proof (intro conjI allI impI)
  assume "get_email_connection d user_id = None"
  then show "update_email_connection_status d now user_id status error_message = (d, None)"
    by (simp add: update_email_connection_status_def)
next
  fix c
  assume c: "get_email_connection d user_id = Some c"
  define c' where
    "c' = (if status = ''connected''
           then c\<lparr>ec_connection_status := status, ec_is_connected := (status = ''connected''),
                  ec_last_error := error_message, ec_last_sync_at := Some now\<rparr>
           else c\<lparr>ec_connection_status := status, ec_is_connected := (status = ''connected''),
                  ec_last_error := error_message\<rparr>)"
  have user: "ec_user_id c = user_id"
    using c unfolding get_email_connection_def by (auto dest: find_Some_iff[THEN iffD1])
  have res: "update_email_connection_status d now user_id status error_message =
      (d\<lparr>email_connections :=
           update_first (\<lambda>c. ec_user_id c = user_id) c' (email_connections d)\<rparr>, Some c')"
    using c by (simp add: update_email_connection_status_def c'_def Let_def)
  have "ec_user_id c' = user_id"
    using user by (simp add: c'_def)
  with c have again: "get_email_connection
      (d\<lparr>email_connections :=
           update_first (\<lambda>c. ec_user_id c = user_id) c' (email_connections d)\<rparr>) user_id = Some c'"
    unfolding get_email_connection_def by (simp add: find_update_first)
  show "\<exists>c'. snd (update_email_connection_status d now user_id status error_message) = Some c'
           \<and> get_email_connection
                (fst (update_email_connection_status d now user_id status error_message)) user_id
              = Some c'
           \<and> ec_connection_status c' = status
           \<and> (ec_is_connected c' \<longleftrightarrow> ec_connection_status c' = ''connected'')
           \<and> (status \<noteq> ''connected'' \<longrightarrow> ec_last_sync_at c' = ec_last_sync_at c)
           \<and> (status = ''connected'' \<longrightarrow> ec_last_sync_at c' = Some now)"
    unfolding res using again by (intro exI[of _ c']) (simp add: c'_def)
qed

theorem update_email_connection_status_effect_witness:
  "get_email_connection small_db 1 = Some gmail_link
   \<and> get_email_connection no_rows 1 = None
   \<and> update_email_connection_status no_rows 2000 1 ''syncing'' None = (no_rows, None)
   \<and> (\<exists>c'. snd (update_email_connection_status small_db 2000 1 ''syncing'' None) = Some c'
         \<and> \<not> ec_is_connected c' \<and> ec_last_sync_at c' = Some 900)
   \<and> (\<exists>c'. snd (update_email_connection_status small_db 2000 1 ''connected'' None) = Some c'
         \<and> ec_is_connected c' \<and> ec_last_sync_at c' = Some 2000)"
proof -
  have some: "get_email_connection small_db 1 = Some gmail_link"
    by (simp add: get_email_connection_def small_db_def gmail_link_def)
  have none: "get_email_connection no_rows 1 = None"
    by (simp add: get_email_connection_def no_rows_def)
  have sync900: "ec_last_sync_at gmail_link = Some 900"
    by (simp add: gmail_link_def)
  have a: "update_email_connection_status no_rows 2000 1 ''syncing'' None = (no_rows, None)"
    using update_email_connection_status_effect [of no_rows 1 2000 "''syncing''" None] none
    by blast
  have b: "\<exists>c'. snd (update_email_connection_status small_db 2000 1 ''syncing'' None) = Some c'
         \<and> \<not> ec_is_connected c' \<and> ec_last_sync_at c' = Some 900"
    using update_email_connection_status_effect [of small_db 1 2000 "''syncing''" None]
      some sync900
    by auto
  have c: "\<exists>c'. snd (update_email_connection_status small_db 2000 1 ''connected'' None) = Some c'
         \<and> ec_is_connected c' \<and> ec_last_sync_at c' = Some 2000"
    using update_email_connection_status_effect [of small_db 1 2000 "''connected''" None] some
    by auto
  show ?thesis
    using some none a b c by blast
qed

text \<open>
  C7. For a sender that already has a newsletter row, the upsert adds one to the
  cumulative email count, sets the last-received time, and fills the title or the category
  only where the stored one is empty: a stored title (respectively category) that is set
  stays as it is, whatever the metadata of the new message says. Every other column of the
  row, every other row and every other table are left as they were.
\<close>

theorem get_or_create_newsletter_existing:
  assumes found: "find (\<lambda>n. nl_sender_email n = nd_sender_email newsletter_data) (newsletters d)
                    = Some n"
  shows "\<exists>d' n'. get_or_create_newsletter d now newsletter_data = (d', n')
           \<and> newsletters d' =
               update_first (\<lambda>n. nl_sender_email n = nd_sender_email newsletter_data) n'
                 (newsletters d)
           \<and> user_newsletters d' = user_newsletters d
           \<and> newsletter_emails d' = newsletter_emails d
           \<and> email_connections d' = email_connections d
           \<and> nl_total_emails_count n' = nl_total_emails_count n + 1
           \<and> nl_last_received_at n' = Some now
           \<and> (truthy (nl_newsletter_title n) \<longrightarrow> nl_newsletter_title n' = nl_newsletter_title n)
           \<and> (truthy (nl_category n) \<longrightarrow> nl_category n' = nl_category n)
           \<and> (\<not> truthy (nl_newsletter_title n) \<longrightarrow>
                nl_newsletter_title n' =
                  (if truthy (nd_newsletter_title newsletter_data)
                   then nd_newsletter_title newsletter_data else nl_newsletter_title n))
           \<and> (\<not> truthy (nl_category n) \<longrightarrow>
                nl_category n' =
                  (if truthy (nd_category newsletter_data)
                   then nd_category newsletter_data else nl_category n))
           \<and> nl_id n' = nl_id n
           \<and> nl_sender_email n' = nl_sender_email n
           \<and> nl_sender_name n' = nl_sender_name n
           \<and> nl_domain n' = nl_domain n
           \<and> nl_publication_frequency n' = nl_publication_frequency n
           \<and> nl_average_length n' = nl_average_length n
           \<and> nl_is_active n' = nl_is_active n"
  using found by (simp add: get_or_create_newsletter_def Let_def)

theorem get_or_create_newsletter_existing_witness:
  "find (\<lambda>n. nl_sender_email n = nd_sender_email later_metadata) (newsletters small_db) = Some brew
   \<and> truthy (nl_newsletter_title brew) \<and> truthy (nl_category brew)
   \<and> nl_newsletter_title (snd (get_or_create_newsletter small_db 2000 later_metadata))
       = Some ''Morning Brew''
   \<and> nl_category (snd (get_or_create_newsletter small_db 2000 later_metadata)) = Some ''Business''
   \<and> nl_total_emails_count (snd (get_or_create_newsletter small_db 2000 later_metadata)) = 5
   \<and> nl_last_received_at (snd (get_or_create_newsletter small_db 2000 later_metadata))
       = Some 2000"
proof -
  have found: "find (\<lambda>n. nl_sender_email n = nd_sender_email later_metadata)
                 (newsletters small_db) = Some brew"
    by (simp add: small_db_def brew_def later_metadata_def)
  have set: "truthy (nl_newsletter_title brew)" "truthy (nl_category brew)"
    by (simp_all add: brew_def truthy_def)
  have old: "nl_newsletter_title brew = Some ''Morning Brew''"
    "nl_category brew = Some ''Business''" "nl_total_emails_count brew = 4"
    by (simp_all add: brew_def)
  show ?thesis
    using get_or_create_newsletter_existing [OF found, of 2000] found set old
    by auto
qed

section \<open>Properties of the statistics\<close>

lemma compute_stats_fault:
  assumes "k < 6" and "faults k = Some e"
  shows "\<exists>e'. compute_stats faults d now user_id = Inl e'"
proof -
  from assms(1) consider "k = 0" | "k = 1" | "k = 2" | "k = 3" | "k = 4" | "k = 5"
    by linarith
  then show ?thesis
    using assms(2)
    by cases (auto simp: compute_stats_def run_query_def then_do_def split: option.splits)
qed

lemma concat_map_empty: "(\<forall>x\<in>set xs. f x = []) \<Longrightarrow> concat (map f xs) = []"
  by (induction xs) auto

lemma compute_stats_no_data:
  assumes subs: "\<forall>s\<in>set (user_newsletters d). un_user_id s \<noteq> user_id"
    and mails: "\<forall>e\<in>set (newsletter_emails d). ne_user_id e \<noteq> user_id"
  shows "compute_stats (\<lambda>k. None) d now user_id = Inr empty_stats"
proof -
  have a: "count_total_newsletters d user_id = 0"
    unfolding count_total_newsletters_def using subs by (simp add: concat_map_empty)
  have b: "count_active_subscriptions d user_id = 0"
    unfolding count_active_subscriptions_def using subs by simp
  have c: "count_total_emails d user_id = 0"
    unfolding count_total_emails_def using mails by simp
  have e: "count_emails_since d user_id t = 0" for t
    unfolding count_emails_since_def using mails by simp
  have "joined_categories d user_id = []"
    unfolding joined_categories_def using mails by (simp add: concat_map_empty)
  then have f: "top_categories_query d user_id = []"
    by (simp add: top_categories_query_def)
  show ?thesis
    by (simp add: compute_stats_def run_query_def then_do_def a b c e f empty_stats_def)
qed

text \<open>
  C8. When any of the six queries of the statistics raises, \<open>get_newsletter_stats\<close> returns
  the all-zero summary instead of the exception, and this is the very summary that a user
  with no subscriptions and no emails gets from a database that works.
\<close>

theorem get_newsletter_stats_swallows_errors:
  assumes "k < 6" and "faults k = Some e"
  shows "get_newsletter_stats faults d now user_id = empty_stats
         \<and> (\<forall>d' now' u'.
              (\<forall>s\<in>set (user_newsletters d'). un_user_id s \<noteq> u')
              \<and> (\<forall>m\<in>set (newsletter_emails d'). ne_user_id m \<noteq> u')
              \<longrightarrow> get_newsletter_stats (\<lambda>k. None) d' now' u'
                    = get_newsletter_stats faults d now user_id)"
proof -
  obtain e' where "compute_stats faults d now user_id = Inl e'"
    using assms compute_stats_fault[of k faults e d now user_id] by blast
  then have err: "get_newsletter_stats faults d now user_id = empty_stats"
    by (simp add: get_newsletter_stats_def)
  show ?thesis
    unfolding err by (simp add: get_newsletter_stats_def compute_stats_no_data)
qed

theorem get_newsletter_stats_swallows_errors_witness:
  "(3::nat) < 6
   \<and> get_newsletter_stats (\<lambda>k. if k = 3 then Some DatabaseError else None) small_db 2000 1
       = empty_stats
   \<and> get_newsletter_stats (\<lambda>k. None) small_db 2000 2
       = get_newsletter_stats (\<lambda>k. if k = 3 then Some DatabaseError else None) small_db 2000 1
   \<and> total_newsletters (get_newsletter_stats (\<lambda>k. None) small_db 2000 1) = 1"
proof -
  have nodata: "(\<forall>s\<in>set (user_newsletters small_db). un_user_id s \<noteq> 2)
      \<and> (\<forall>m\<in>set (newsletter_emails small_db). ne_user_id m \<noteq> 2)"
    by (simp add: small_db_def)
  have works: "total_newsletters (get_newsletter_stats (\<lambda>k. None) small_db 2000 1) = 1"
    by (simp add: get_newsletter_stats_def compute_stats_def run_query_def then_do_def
          count_total_newsletters_def small_db_def brew_def)
  show ?thesis
    using get_newsletter_stats_swallows_errors
            [of 3 "\<lambda>k. if k = 3 then Some DatabaseError else None" DatabaseError small_db 2000 1]
          nodata works
    by simp
qed

section \<open>Properties of the metadata\<close>

text \<open>
  C9. A parsed message whose \<open>content_text\<close> is \<open>None\<close> makes \<open>categorize_newsletter\<close> raise
  \<open>TypeError\<close> instead of returning a category, so \<open>extract_newsletter_metadata\<close> raises as
  well. Such a message exists among those that \<open>parse_message\<close> classifies as newsletters:
  a message with a \<open>List-Unsubscribe\<close> header and no part that carries text.
\<close>

theorem categorize_newsletter_without_text:
  "(ed_content_text email = None \<longrightarrow>
      categorize_newsletter email = Inl TypeError
      \<and> (\<exists>e. extract_newsletter_metadata netloc guess_newsletter_title email = Inl e))
   \<and> (\<exists>parsed. parse_message parse_email_date parse_sender decode html_to_text bodyless_message
                  = Inr parsed
        \<and> ed_is_newsletter parsed \<and> ed_content_text parsed = None)"
proof (intro conjI impI)
  assume none: "ed_content_text email = None"
  then show "categorize_newsletter email = Inl TypeError"
    by (simp add: categorize_newsletter_def)
  then show "\<exists>e. extract_newsletter_metadata netloc guess_newsletter_title email = Inl e"
    by (auto simp: extract_newsletter_metadata_def Let_def split: sum.splits)
next
  have body: "extract_message_body decode html_to_text (m_payload bodyless_message)
                = Inr (None, None)"
    by (simp add: bodyless_message_def extract_message_body_def extract_from_part_def
          convert_html_def)
  have "is_likely_newsletter
          (map_of (rev (case headers (m_payload bodyless_message) of None \<Rightarrow> [] | Some l \<Rightarrow> l)))
          None None"
    by code_simp
  then show "\<exists>parsed. parse_message parse_email_date parse_sender decode html_to_text
                 bodyless_message = Inr parsed
        \<and> ed_is_newsletter parsed \<and> ed_content_text parsed = None"
    by (simp add: parse_message_def body Let_def)
qed

theorem categorize_newsletter_without_text_witness:
  "\<exists>parsed. parse_message (\<lambda>s. 0) (\<lambda>s. (lower s, None)) Inr (\<lambda>s. s) bodyless_message = Inr parsed
     \<and> ed_is_newsletter parsed \<and> ed_content_text parsed = None
     \<and> categorize_newsletter parsed = Inl TypeError
     \<and> (\<exists>e. extract_newsletter_metadata Inr (\<lambda>m. None) parsed = Inl e)"
  using categorize_newsletter_without_text
          [of _ Inr "\<lambda>m. None" "\<lambda>s. 0" "\<lambda>s. (lower s, None)" Inr "\<lambda>s. s"]
  by blast

section \<open>Properties of the body extraction\<close>

lemma extract_subparts_append:
  "extract_subparts decode st (xs @ ys) =
     (case extract_subparts decode st xs of
        Inl e \<Rightarrow> Inl e
      | Inr st' \<Rightarrow> extract_subparts decode st' ys)"
  by (induction xs arbitrary: st) (auto split: sum.splits)

lemma extract_parts_flat:
  "extract_parts decode st ps =
     extract_subparts decode st
       (concat (map (\<lambda>p. case parts p of Some subparts \<Rightarrow> subparts | None \<Rightarrow> [p]) ps))"
proof (induction ps arbitrary: st)
  case Nil
  then show ?case by simp
next
  case (Cons p ps)
  show ?case
  proof (cases "parts p")
    case None
    then show ?thesis
      using Cons.IH by (simp split: sum.splits)
  next
    case (Some subparts)
    then show ?thesis
      using Cons.IH by (simp add: extract_subparts_append split: sum.splits)
  qed
qed

lemma extract_message_body_flat:
  "extract_message_body decode html_to_text payload =
     (case extract_subparts decode (None, None) (visited_parts payload) of
        Inl e \<Rightarrow> Inl e
      | Inr st \<Rightarrow> Inr (convert_html html_to_text st))"
  by (cases "parts payload")
     (simp_all add: extract_message_body_def visited_parts_def extract_parts_flat
        split: sum.splits)

text \<open>
  C1, as the specification states it, fails: a decodable \<open>text/plain\<close> leaf three levels
  below the payload is never visited, and the extracted pair is \<open>(None, None)\<close>.
\<close>

theorem extract_message_body_depth_three:
  "extract_message_body Inr (\<lambda>s. s) deep_payload = Inr (None, None)"
  by (simp add: deep_payload_def multipart_def text_part_def extract_message_body_def
        extract_from_part_def convert_html_def)

text \<open>
  C1, amended. The extraction walks two levels and no more: its result is that of calling
  \<open>extract_from_part\<close>, in order, on the payload itself when it has no parts, and otherwise
  on every top-level part without parts and on every direct sub-part of a top-level part
  with parts. Each of these is read as a leaf, by its own MIME type and body data; what
  lies below it, and its headers, do not change the result.
\<close>

theorem extract_message_body_two_levels:
  "extract_message_body decode html_to_text payload =
     (case extract_subparts decode (None, None) (visited_parts payload) of
        Inl e \<Rightarrow> Inl e
      | Inr st \<Rightarrow> Inr (convert_html html_to_text st))
   \<and> extract_from_part decode st (Part m hs b ps) = extract_from_part decode st (Part m hs' b ps')"
  by (simp add: extract_message_body_flat extract_from_part_def)

lemma keep_or_Nil: "keep_or cur [] = cur"
  by (simp add: keep_or_def first_wins_def)

lemma keep_or_Cons:
  "keep_or cur (c # cs) = keep_or (if truthy cur then cur else Some c) cs"
  by (auto simp: keep_or_def first_wins_def truthy_def split: option.splits)

lemma keep_or_append: "keep_or cur (xs @ ys) = keep_or (keep_or cur xs) ys"
  by (induction xs arbitrary: cur) (simp_all add: keep_or_Nil keep_or_Cons)

lemma keep_or_None: "keep_or None cs = first_wins cs"
  by (simp add: keep_or_def truthy_def split: option.splits)

lemma contents_Cons:
  "contents decode mime (p # ps) = contents decode mime [p] @ contents decode mime ps"
  by (simp split: option.splits)

lemma extract_from_part_content:
  assumes "extract_from_part decode (t, h) p = Inr (t', h')"
  shows "t' = keep_or t (contents decode ''text/plain'' [p])
       \<and> h' = keep_or h (contents decode ''text/html'' [p])"
  using assms
  by (auto simp: extract_from_part_def part_content_def keep_or_Nil keep_or_Cons Let_def
           split: option.splits sum.splits if_splits)

lemma extract_subparts_content:
  assumes "extract_subparts decode (t, h) ps = Inr (t', h')"
  shows "t' = keep_or t (contents decode ''text/plain'' ps)
       \<and> h' = keep_or h (contents decode ''text/html'' ps)"
  using assms
proof (induction ps arbitrary: t h)
  case Nil
  then show ?case by (simp add: keep_or_Nil)
next
  case (Cons p ps)
  from Cons.prems obtain t1 h1 where
    step: "extract_from_part decode (t, h) p = Inr (t1, h1)"
    and rest: "extract_subparts decode (t1, h1) ps = Inr (t', h')"
    by (auto split: sum.splits)
  from extract_from_part_content[OF step] Cons.IH[OF rest]
  show ?case
    by (metis contents_Cons keep_or_append)
qed

text \<open>
  C6, as the specification states it, fails: of two \<open>text/plain\<close> parts the first, whose
  content is empty, does not supply the text; the second one replaces it.
\<close>

theorem extract_message_body_empty_first:
  "extract_message_body Inr (\<lambda>s. s) empty_first_payload = Inr (Some ''second'', None)"
  by (simp add: empty_first_payload_def multipart_def text_part_def extract_message_body_def
        extract_from_part_def convert_html_def truthy_def)

text \<open>
  C6, amended. Among the parts that the extraction visits, the first \<open>text/plain\<close> part
  whose decoded content is not empty supplies the text and the first \<open>text/html\<close> part whose
  decoded content is not empty supplies the HTML; later parts of that type are ignored,
  and nothing is concatenated. When no \<open>text/plain\<close> part has content and the HTML is not
  empty, the text is what \<open>html_to_text\<close> makes of the HTML.
\<close>

theorem extract_message_body_first_nonempty:
  assumes "extract_message_body decode html_to_text payload = Inr (text_content, html_content)"
  shows "html_content = first_wins (contents decode ''text/html'' (visited_parts payload))
       \<and> text_content =
           (if \<not> truthy (first_wins (contents decode ''text/plain'' (visited_parts payload)))
               \<and> truthy html_content
            then Some (html_to_text (or_empty html_content))
            else first_wins (contents decode ''text/plain'' (visited_parts payload)))"
proof -
  from assms obtain t h where
    loop: "extract_subparts decode (None, None) (visited_parts payload) = Inr (t, h)"
    and fin: "convert_html html_to_text (t, h) = (text_content, html_content)"
    by (auto simp: extract_message_body_flat split: sum.splits)
  from extract_subparts_content[OF loop]
  have t: "t = first_wins (contents decode ''text/plain'' (visited_parts payload))"
    and h: "h = first_wins (contents decode ''text/html'' (visited_parts payload))"
    by (simp_all add: keep_or_None)
  from fin show ?thesis
    unfolding t[symmetric] h[symmetric]
    by (auto simp: convert_html_def truthy_def or_empty_def split: option.splits if_splits)
qed

theorem extract_message_body_first_nonempty_witness:
  "extract_message_body Inr (\<lambda>s. s) mixed_payload = Inr (Some ''first'', Some ''<p>first</p>'')
   \<and> first_wins (contents Inr ''text/plain'' (visited_parts mixed_payload)) = Some ''first''
   \<and> first_wins (contents Inr ''text/html'' (visited_parts mixed_payload)) = Some ''<p>first</p>''
   \<and> extract_message_body Inr (\<lambda>s. ''hi'') html_only_payload = Inr (Some ''hi'', Some ''<p>hi</p>'')
   \<and> first_wins (contents Inr ''text/plain'' (visited_parts html_only_payload)) = None"
proof -
  have a: "extract_message_body Inr (\<lambda>s. s) mixed_payload
             = Inr (Some ''first'', Some ''<p>first</p>'')"
    by (simp add: mixed_payload_def multipart_def text_part_def extract_message_body_def
          extract_from_part_def convert_html_def truthy_def)
  have b: "extract_message_body Inr (\<lambda>s. ''hi'') html_only_payload
             = Inr (Some ''hi'', Some ''<p>hi</p>'')"
    by (simp add: html_only_payload_def text_part_def extract_message_body_def
          extract_from_part_def convert_html_def truthy_def)
  have c: "first_wins (contents Inr ''text/plain'' (visited_parts html_only_payload)) = None"
    by (simp add: html_only_payload_def text_part_def visited_parts_def part_content_def
          first_wins_def)
  have d: "first_wins (contents Inr ''text/plain'' (visited_parts mixed_payload)) = Some ''first''"
    by (simp add: mixed_payload_def multipart_def text_part_def visited_parts_def
          part_content_def first_wins_def)
  from extract_message_body_first_nonempty [OF a]
  have e: "first_wins (contents Inr ''text/html'' (visited_parts mixed_payload))
             = Some ''<p>first</p>''"
    by simp
  from extract_message_body_first_nonempty [OF b]
  have "Some ''<p>hi</p>''
          = first_wins (contents Inr ''text/html'' (visited_parts html_only_payload))"
    by simp
  with a b c d e show ?thesis
    by simp
qed

section \<open>Properties of the classifier\<close>









section \<open>Properties of the categorization\<close>








section \<open>Properties of the listing\<close>










end
